theory Spec2Isabelle
  imports Main
begin

section \<open>The voice-command dispatch engine (command\_engine.py)\<close>

text \<open>
  A shallow embedding of the class \<open>CommandEngine\<close>. Python strings are lists of
  code points below 256; a dictionary is an association list in insertion order with
  distinct keys; the list object behind \<open>self.command_history\<close> lives in a store of
  list objects, so that \<open>list.copy()\<close> allocates a new object; the operating system
  (clock, file system, child processes) is a record of answers the engine receives; an
  exception is a value \<open>Inl (Exn msg)\<close>. Calls to the \<open>logger\<close> are left out: they
  return nothing and do not touch the engine.
\<close>

subsection \<open>Python strings\<close>

text \<open>\<open>s.startswith(p)\<close>\<close>

fun startswith :: "string \<Rightarrow> string \<Rightarrow> bool" where
  "startswith s [] = True"
| "startswith [] (p # ps) = False"
| "startswith (c # s) (p # ps) = (c = p \<and> startswith s ps)"

text \<open>\<open>sub in s\<close>: does \<open>sub\<close> occur in \<open>s\<close> as a contiguous substring?\<close>

fun str_contains :: "string \<Rightarrow> string \<Rightarrow> bool" where
  "str_contains [] sub = (sub = [])"
| "str_contains (c # s) sub = (startswith (c # s) sub \<or> str_contains s sub)"

text \<open>\<open>sep.join(xs)\<close>\<close>

fun join :: "string \<Rightarrow> string list \<Rightarrow> string" where
  "join sep [] = []"
| "join sep [x] = x"
| "join sep (x # y # ys) = x @ sep @ join sep (y # ys)"

text \<open>The characters below 256 for which \<open>str.isspace\<close> holds.\<close>

definition whitespace :: "char list" where
  "whitespace = [CHR 0x09, CHR 0x0A, CHR 0x0B, CHR 0x0C, CHR 0x0D,
                 CHR 0x1C, CHR 0x1D, CHR 0x1E, CHR 0x1F, CHR 0x20, CHR 0x85, CHR 0xA0]"

definition isspace :: "char \<Rightarrow> bool" where
  "isspace c = (c \<in> set whitespace)"

text \<open>The characters below 256 that \<open>str.lower\<close> changes, and their images.\<close>

definition uppercase :: "char list" where
  "uppercase = ''ABCDEFGHIJKLMNOPQRSTUVWXYZ'' @
     [CHR 0xC0, CHR 0xC1, CHR 0xC2, CHR 0xC3, CHR 0xC4, CHR 0xC5, CHR 0xC6, CHR 0xC7,
      CHR 0xC8, CHR 0xC9, CHR 0xCA, CHR 0xCB, CHR 0xCC, CHR 0xCD, CHR 0xCE, CHR 0xCF,
      CHR 0xD0, CHR 0xD1, CHR 0xD2, CHR 0xD3, CHR 0xD4, CHR 0xD5, CHR 0xD6,
      CHR 0xD8, CHR 0xD9, CHR 0xDA, CHR 0xDB, CHR 0xDC, CHR 0xDD, CHR 0xDE]"

definition lowercase :: "char list" where
  "lowercase = ''abcdefghijklmnopqrstuvwxyz'' @
     [CHR 0xE0, CHR 0xE1, CHR 0xE2, CHR 0xE3, CHR 0xE4, CHR 0xE5, CHR 0xE6, CHR 0xE7,
      CHR 0xE8, CHR 0xE9, CHR 0xEA, CHR 0xEB, CHR 0xEC, CHR 0xED, CHR 0xEE, CHR 0xEF,
      CHR 0xF0, CHR 0xF1, CHR 0xF2, CHR 0xF3, CHR 0xF4, CHR 0xF5, CHR 0xF6,
      CHR 0xF8, CHR 0xF9, CHR 0xFA, CHR 0xFB, CHR 0xFC, CHR 0xFD, CHR 0xFE]"

definition lower_char :: "char \<Rightarrow> char" where
  "lower_char c = (case map_of (zip uppercase lowercase) c of Some l \<Rightarrow> l | None \<Rightarrow> c)"

text \<open>\<open>s.lower()\<close> and \<open>s.strip()\<close>\<close>

definition lower :: "string \<Rightarrow> string" where
  "lower s = map lower_char s"

definition strip :: "string \<Rightarrow> string" where
  "strip s = rev (dropWhile isspace (rev (dropWhile isspace s)))"

text \<open>The apostrophe and the line feed, which a string literal cannot hold.\<close>

abbreviation apostrophe :: char where "apostrophe \<equiv> CHR 0x27"
abbreviation line_feed :: char where "line_feed \<equiv> CHR 0x0A"

subsection \<open>Python dictionaries\<close>

text \<open>
  \<open>d[k] = v\<close>: an existing key keeps its place in the iteration order and gets the new
  value, a new key goes to the end.
\<close>

fun dict_set :: "('k \<times> 'v) list \<Rightarrow> 'k \<Rightarrow> 'v \<Rightarrow> ('k \<times> 'v) list" where
  "dict_set [] k v = [(k, v)]"
| "dict_set ((k', v') # d) k v = (if k' = k then (k, v) # d else (k', v') # dict_set d k v)"

text \<open>\<open>d.get(k)\<close> and \<open>list(d.keys())\<close>\<close>

definition dict_get :: "('k \<times> 'v) list \<Rightarrow> 'k \<Rightarrow> 'v option" where
  "dict_get d k = map_of d k"

definition dict_keys :: "('k \<times> 'v) list \<Rightarrow> 'k list" where
  "dict_keys d = map fst d"

subsection \<open>Data\<close>

text \<open>A value of the whitelist: the keys \<open>script\<close>, \<open>description\<close>, \<open>requires_confirmation\<close>.\<close>

record command_config =
  script :: "string option"
  description :: string
  requires_confirmation :: bool

text \<open>What \<open>_match_command\<close> returns: \<open>{"trigger": trigger, **config}\<close>.\<close>

type_synonym matched_command = "string \<times> command_config"

text \<open>An entry of the command history, as \<open>_log_command\<close> builds it.\<close>

record log_entry =
  timestamp :: string
  command :: string
  cve_id :: "string option"
  source :: string

datatype exn = Exn string

text \<open>
  What a child process does: it exits with a return code, having written bytes to its
  standard output and standard error; or it is still running after the timeout; or it
  cannot be started (\<open>OSError\<close> and the like, with the exception's text).
\<close>

datatype child_result =
    Exited int string string
  | TimedOut
  | NotStarted string

text \<open>What \<open>subprocess.run\<close> does: it returns a \<open>CompletedProcess\<close> (return code, output
  and error output as text), or raises \<open>TimeoutExpired\<close>, or raises something else.\<close>

datatype run_result =
    Completed int string string
  | TimeoutExpired
  | Raised string

text \<open>
  The answers of the operating system during one call: the \<open>n\<close>-th reading of
  \<open>datetime.now().isoformat()\<close>, \<open>os.path.exists\<close>, \<open>os.access(_, os.X_OK)\<close>,
  what the child started from \<open>[path]\<close> with the environment \<open>env\<close> does,
  \<open>bytes.decode\<close> with the encoding of the locale (\<open>Inl\<close> is the \<open>UnicodeDecodeError\<close>),
  whether \<open>os.makedirs(_, exist_ok=True)\<close> raises (\<open>Some msg\<close> is the exception's text),
  and whether opening a file for append, writing a text to it and closing it raises
  (\<open>None\<close>: it does not, and the text is at the end of the file; \<open>Some written\<close>: it does,
  and \<open>written\<close> is what has reached the file by then, nothing when the file could not be
  opened).
\<close>

record os_world =
  now_isoformat :: "nat \<Rightarrow> string"
  path_exists :: "string \<Rightarrow> bool"
  access_x_ok :: "string \<Rightarrow> bool"
  child_process :: "string \<Rightarrow> (string \<times> string) list \<Rightarrow> child_result"
  bytes_decode :: "string \<Rightarrow> exn + string"
  makedirs_raises :: "string \<Rightarrow> string option"
  append_raises :: "string \<Rightarrow> string \<Rightarrow> string option"

text \<open>What the engine asks of or does to the operating system, in order.\<close>

datatype event =
    PathExists string
  | AccessXOk string
  | SubprocessRun "string list" "(string \<times> string) list" nat
  | MakeDirs string

type_synonym ref = nat

text \<open>
  The engine and the part of the process it touches: the whitelist, the reference held
  by \<open>self.command_history\<close>, the store of list objects with its next free reference,
  \<open>os.environ\<close>, the number of clock readings so far, the contents of the files, and
  the trace of events.
\<close>

record state =
  command_whitelist :: "(string \<times> command_config) list"
  command_history :: ref
  lists :: "ref \<Rightarrow> log_entry list"
  next_ref :: ref
  environ :: "(string \<times> string) list"
  clock :: nat
  files :: "string \<Rightarrow> string"
  trace :: "event list"

text \<open>The list the engine's history reference points to.\<close>

definition history :: "state \<Rightarrow> log_entry list" where
  "history s = lists s (command_history s)"

subsection \<open>Construction\<close>

definition default_whitelist :: "(string \<times> command_config) list" where
  "default_whitelist =
    [(''start patching'',
        \<lparr>script = Some ''scripts/patch_r2s.sh'',
         description = ''Initiate automated patching process'',
         requires_confirmation = False\<rparr>),
     (''quarantine servers'',
        \<lparr>script = Some ''scripts/isolate.sh'',
         description = ''Isolate affected systems'',
         requires_confirmation = True\<rparr>),
     (''acknowledge incident'',
        \<lparr>script = None,
         description = ''Log incident acknowledgment'',
         requires_confirmation = False\<rparr>),
     (''emergency shutdown'',
        \<lparr>script = Some ''scripts/emergency_shutdown.sh'',
         description = ''Emergency system shutdown'',
         requires_confirmation = True\<rparr>),
     (''status report'',
        \<lparr>script = Some ''scripts/status_check.sh'',
         description = ''Generate system status report'',
         requires_confirmation = False\<rparr>)]"

text \<open>
  The state after \<open>CommandEngine()\<close> has returned, in a process whose environment is
  \<open>env\<close>: the history is a new, empty list object.
\<close>

definition new_engine :: "(string \<times> string) list \<Rightarrow> state" where
  "new_engine env =
    \<lparr>command_whitelist = default_whitelist,
     command_history = 0,
     lists = (\<lambda>r. []),
     next_ref = 1,
     environ = env,
     clock = 0,
     files = (\<lambda>p. []),
     trace = [MakeDirs ''scripts'']\<rparr>"

subsection \<open>Matching\<close>

text \<open>The first loop of \<open>_match_command\<close>, over \<open>self.command_whitelist.items()\<close>.\<close>

fun direct_match :: "(string \<times> command_config) list \<Rightarrow> string \<Rightarrow> matched_command option" where
  "direct_match [] command_text = None"
| "direct_match ((trigger, config) # rest) command_text =
     (if str_contains command_text trigger then Some (trigger, config)
      else direct_match rest command_text)"

definition fuzzy_matches :: "(string \<times> string) list" where
  "fuzzy_matches =
    [(''patch'', ''start patching''),
     (''quarantine'', ''quarantine servers''),
     (''isolate'', ''quarantine servers''),
     (''acknowledge'', ''acknowledge incident''),
     (''ack'', ''acknowledge incident''),
     (''shutdown'', ''emergency shutdown''),
     (''status'', ''status report''),
     (''report'', ''status report'')]"

text \<open>
  The second loop, over \<open>fuzzy_matches.items()\<close>. The subscript
  \<open>self.command_whitelist[trigger]\<close> raises \<open>KeyError\<close> for a missing key.
\<close>

fun fuzzy_match ::
  "(string \<times> string) list \<Rightarrow> (string \<times> command_config) list \<Rightarrow> string
     \<Rightarrow> exn + matched_command option" where
  "fuzzy_match [] whitelist command_text = Inr None"
| "fuzzy_match ((keyword, trigger) # rest) whitelist command_text =
     (if str_contains command_text keyword then
        (case dict_get whitelist trigger of
           None \<Rightarrow> Inl (Exn (apostrophe # trigger @ [apostrophe]))
         | Some config \<Rightarrow> Inr (Some (trigger, config)))
      else fuzzy_match rest whitelist command_text)"

definition match_command ::
  "(string \<times> command_config) list \<Rightarrow> string \<Rightarrow> exn + matched_command option" where
  "match_command whitelist command_text =
     (case direct_match whitelist command_text of
        Some m \<Rightarrow> Inr (Some m)
      | None \<Rightarrow> fuzzy_match fuzzy_matches whitelist command_text)"

subsection \<open>Execution\<close>

text \<open>Python's truth value of an optional string: \<open>None\<close> and \<open>""\<close> are false.\<close>

fun truthy :: "string option \<Rightarrow> string option" where
  "truthy None = None"
| "truthy (Some x) = (if x = [] then None else Some x)"

definition emit :: "event \<Rightarrow> state \<Rightarrow> state" where
  "emit e s = s\<lparr>trace := trace s @ [e]\<rparr>"

text \<open>\<open>datetime.now().isoformat()\<close>: the reading and the state after it.\<close>

definition now :: "os_world \<Rightarrow> state \<Rightarrow> string \<times> state" where
  "now w s = (now_isoformat w (clock s), s\<lparr>clock := Suc (clock s)\<rparr>)"

text \<open>
  The environment \<open>_execute_script\<close> builds for the child: \<open>os.environ.copy()\<close>, then
  \<open>CVE_ID\<close> if \<open>cve_id\<close> is true, then \<open>TIMESTAMP\<close>.
\<close>

definition child_env ::
  "(string \<times> string) list \<Rightarrow> string option \<Rightarrow> string \<Rightarrow> (string \<times> string) list" where
  "child_env parent cve t =
     (let env = parent;
          env = (case truthy cve of Some c \<Rightarrow> dict_set env ''CVE_ID'' c | None \<Rightarrow> env)
      in dict_set env ''TIMESTAMP'' t)"

text \<open>
  Text mode replaces, in what it has decoded, every carriage return followed by a line
  feed, and then every carriage return, by a line feed.
\<close>

fun translate_newlines :: "string \<Rightarrow> string" where
  "translate_newlines [] = []"
| "translate_newlines (c # s) =
     (if c = CHR 0x0D then
        (case s of
           [] \<Rightarrow> [line_feed]
         | d # s' \<Rightarrow> if d = line_feed then line_feed # translate_newlines s'
                     else line_feed # translate_newlines s)
      else c # translate_newlines s)"

text \<open>
  \<open>subprocess.run([script_path], capture_output=True, text=True, timeout=300, env=env)\<close>:
  a child that cannot be started raises; one that outlives the timeout is killed and
  \<open>TimeoutExpired\<close> is raised; the output of one that exits is decoded, standard output
  first, and a \<open>UnicodeDecodeError\<close> of either is raised.
\<close>

definition subprocess_run ::
  "os_world \<Rightarrow> string \<Rightarrow> (string \<times> string) list \<Rightarrow> run_result" where
  "subprocess_run w script_path env =
     (case child_process w script_path env of
        NotStarted e \<Rightarrow> Raised e
      | TimedOut \<Rightarrow> TimeoutExpired
      | Exited returncode out err \<Rightarrow>
          (case bytes_decode w out of
             Inl (Exn e) \<Rightarrow> Raised e
           | Inr out_text \<Rightarrow>
               (case bytes_decode w err of
                  Inl (Exn e) \<Rightarrow> Raised e
                | Inr err_text \<Rightarrow>
                    Completed returncode (translate_newlines out_text)
                      (translate_newlines err_text))))"

definition execute_script ::
  "os_world \<Rightarrow> string \<Rightarrow> string \<Rightarrow> string option \<Rightarrow> state \<Rightarrow> (exn + string) \<times> state" where
  "execute_script w script_path command_name cve s =
     (let s1 = emit (PathExists script_path) s in
      if \<not> path_exists w script_path then
        (Inr (''Script '' @ script_path @ '' not found. Please check configuration.''), s1)
      else
        let s2 = emit (AccessXOk script_path) s1 in
        if \<not> access_x_ok w script_path then
          (Inr (''Script '' @ script_path @ '' is not executable.''), s2)
        else
          let (t, s3) = now w s2;
              env = child_env (environ s3) cve t;
              s4 = emit (SubprocessRun [script_path] env 300) s3
          in case subprocess_run w script_path env of
               Completed returncode out err \<Rightarrow>
                 if returncode = 0 then (Inr (command_name @ '' completed successfully.''), s4)
                 else (Inr (command_name @ '' failed. Check logs for details.''), s4)
             | TimeoutExpired \<Rightarrow> (Inr (command_name @ '' timed out after 5 minutes.''), s4)
             | Raised e \<Rightarrow> (Inr (''Error executing '' @ command_name @ '': '' @ e), s4))"

definition ack_file :: string where
  "ack_file = ''logs/acknowledgments.log''"

definition handle_acknowledgment ::
  "os_world \<Rightarrow> string option \<Rightarrow> state \<Rightarrow> (exn + string) \<times> state" where
  "handle_acknowledgment w cve s =
     (let (t, s1) = now w s;
          ack_message = ''Incident acknowledged at '' @ t @
             (case truthy cve of Some c \<Rightarrow> '' for '' @ c | None \<Rightarrow> []);
          s2 = emit (MakeDirs ''logs'') s1;
          line = t @ '': '' @ ack_message @ [line_feed]
      in case makedirs_raises w ''logs'' of
           Some e \<Rightarrow> (Inl (Exn e), s2)
         | None \<Rightarrow>
             (case append_raises w ack_file line of
                Some written \<Rightarrow>
                  (Inr ''Incident acknowledged and logged.'',
                   s2\<lparr>files := (files s2)(ack_file := files s2 ack_file @ written)\<rparr>)
              | None \<Rightarrow>
                  (Inr ''Incident acknowledged and logged.'',
                   s2\<lparr>files := (files s2)(ack_file := files s2 ack_file @ line)\<rparr>)))"

text \<open>The body of the \<open>try\<close> in \<open>_execute_command\<close>.\<close>

definition execute_command_try ::
  "os_world \<Rightarrow> matched_command \<Rightarrow> string option \<Rightarrow> state \<Rightarrow> (exn + string) \<times> state" where
  "execute_command_try w command_config cve s =
     (let trigger = fst command_config;
          script_path = script (snd command_config)
      in if trigger = ''acknowledge incident'' then handle_acknowledgment w cve s
         else case truthy script_path of
                Some p \<Rightarrow> execute_script w p trigger cve s
              | None \<Rightarrow>
                  (Inr (''Command '' @ [apostrophe] @ trigger @ [apostrophe] @
                        '' recognized but no action configured.''), s))"

text \<open>\<open>_execute_command\<close>: the \<open>try\<close> with its \<open>except Exception\<close>.\<close>

definition execute_command ::
  "os_world \<Rightarrow> matched_command \<Rightarrow> string \<Rightarrow> string option \<Rightarrow> state \<Rightarrow> (exn + string) \<times> state" where
  "execute_command w command_config original_text cve s =
     (case execute_command_try w command_config cve s of
        (Inl (Exn e), s') \<Rightarrow>
          (Inr (''Failed to execute '' @ fst command_config @ ''. Error: '' @ e), s')
      | (Inr msg, s') \<Rightarrow> (Inr msg, s'))"

subsection \<open>The audit trail and the public methods\<close>

definition log_command :: "os_world \<Rightarrow> string \<Rightarrow> string option \<Rightarrow> state \<Rightarrow> state" where
  "log_command w command_text cve s =
     (let (t, s1) = now w s;
          entry = \<lparr>timestamp = t, command = command_text, cve_id = cve,
                   source = ''voice_command''\<rparr>
      in s1\<lparr>lists := (lists s1)(command_history s1 := lists s1 (command_history s1) @ [entry])\<rparr>)"

definition get_help_response :: "state \<Rightarrow> string" where
  "get_help_response s =
     ''Unknown command. Available commands: '' @ [apostrophe] @
     join ([apostrophe] @ '', '' @ [apostrophe]) (dict_keys (command_whitelist s)) @
     [apostrophe] @ ''. Please try again.''"

definition process_voice_command ::
  "os_world \<Rightarrow> string \<Rightarrow> string option \<Rightarrow> state \<Rightarrow> (exn + string) \<times> state" where
  "process_voice_command w command_text cve s =
     (let text = strip (lower command_text);
          s1 = log_command w text cve s
      in case match_command (command_whitelist s1) text of
           Inl e \<Rightarrow> (Inl e, s1)
         | Inr None \<Rightarrow> (Inr (get_help_response s1), s1)
         | Inr (Some matched) \<Rightarrow> execute_command w matched text cve s1)"

text \<open>\<open>get_command_history\<close>: \<open>list.copy()\<close> allocates a new list object with the same
  elements and returns the reference to it.\<close>

definition get_command_history :: "state \<Rightarrow> ref \<times> state" where
  "get_command_history s =
     (next_ref s,
      s\<lparr>lists := (lists s)(next_ref s := lists s (command_history s)),
        next_ref := Suc (next_ref s)\<rparr>)"

definition add_custom_command :: "string \<Rightarrow> string \<Rightarrow> string \<Rightarrow> state \<Rightarrow> state" where
  "add_custom_command trigger script_path descr s =
     s\<lparr>command_whitelist :=
         dict_set (command_whitelist s) (lower trigger)
           \<lparr>script = Some script_path, description = descr, requires_confirmation = True\<rparr>\<rparr>"

subsection \<open>Callers\<close>

text \<open>
  What a caller can do to a list it holds a reference to: \<open>append\<close>, \<open>remove\<close>,
  \<open>sort\<close>, \<open>reverse\<close>, \<open>clear\<close> and the like replace the elements of that list object
  by a function of them.
\<close>

definition mutate_list :: "ref \<Rightarrow> (log_entry list \<Rightarrow> log_entry list) \<Rightarrow> state \<Rightarrow> state" where
  "mutate_list r f s = s\<lparr>lists := (lists s)(r := f (lists s r))\<rparr>"

text \<open>The public methods of the engine, and a run of calls to them.\<close>

datatype operation =
    ProcessVoiceCommand os_world string "string option"
  | AddCustomCommand string string string
  | GetCommandHistory

fun apply_operation :: "operation \<Rightarrow> state \<Rightarrow> state" where
  "apply_operation (ProcessVoiceCommand w command_text cve) s =
     snd (process_voice_command w command_text cve s)"
| "apply_operation (AddCustomCommand trigger script_path descr) s =
     add_custom_command trigger script_path descr s"
| "apply_operation GetCommandHistory s = snd (get_command_history s)"

fun run_operations :: "operation list \<Rightarrow> state \<Rightarrow> state" where
  "run_operations [] s = s"
| "run_operations (x # xs) s = run_operations xs (apply_operation x s)"

text \<open>The number of \<open>process_voice_command\<close> calls in a run.\<close>

fun utterances :: "operation list \<Rightarrow> nat" where
  "utterances [] = 0"
| "utterances (ProcessVoiceCommand w command_text cve # xs) = Suc (utterances xs)"
| "utterances (x # xs) = utterances xs"

subsection \<open>Example worlds\<close>

text \<open>
  The codec \<open>ascii\<close>: bytes below 128 decode to themselves; the first other byte raises
  \<open>'ascii' codec can't decode byte 0x.. in position ..: ordinal not in range(128)\<close>, with
  the byte as two hexadecimal digits and the position in decimal.
\<close>

definition digits :: string where
  "digits = ''0123456789abcdef''"

function decimal :: "nat \<Rightarrow> string" where
  "decimal n = (if n < 10 then [digits ! n] else decimal (n div 10) @ [digits ! (n mod 10)])"
  by pat_completeness auto
termination
  by (relation "measure id") auto

declare decimal.simps [simp del]

definition hex2 :: "char \<Rightarrow> string" where
  "hex2 c = [digits ! (of_char c div 16), digits ! (of_char c mod 16)]"

definition is_ascii :: "char \<Rightarrow> bool" where
  "is_ascii c = ((of_char c :: nat) < 128)"

definition ascii_decode :: "string \<Rightarrow> exn + string" where
  "ascii_decode b =
     (case dropWhile is_ascii b of
        [] \<Rightarrow> Inr b
      | c # rest \<Rightarrow>
          Inl (Exn ([apostrophe] @ ''ascii'' @ [apostrophe] @ '' codec can'' @ [apostrophe] @
                    ''t decode byte 0x'' @ hex2 c @ '' in position '' @
                    decimal (length (takeWhile is_ascii b)) @
                    '': ordinal not in range(128)'')))"

text \<open>A world in which every script exists, is executable, writes nothing to its standard
  output and the given bytes to its standard error and exits with the given code, in which
  the encoding of the locale is \<open>ascii\<close>, and in which the log directory can be made and
  any text that the encoding can encode can be written to the log file.\<close>

definition world_exit :: "int \<Rightarrow> string \<Rightarrow> os_world" where
  "world_exit rc err =
    \<lparr>now_isoformat = (\<lambda>n. if n = 0 then ''2025-12-05T10:00:00'' else ''2025-12-05T10:00:01''),
     path_exists = (\<lambda>p. True),
     access_x_ok = (\<lambda>p. True),
     child_process = (\<lambda>p env. Exited rc [] err),
     bytes_decode = ascii_decode,
     makedirs_raises = (\<lambda>p. None),
     append_raises = (\<lambda>p t. if list_all is_ascii t then None else Some [])\<rparr>"

text \<open>The same world with no script installed.\<close>

definition world_no_scripts :: os_world where
  "world_no_scripts = (world_exit 0 [])\<lparr>path_exists := (\<lambda>p. False)\<rparr>"

text \<open>The same world with a log file that cannot be opened.\<close>

definition world_readonly :: os_world where
  "world_readonly = (world_exit 0 [])\<lparr>append_raises := (\<lambda>p t. Some [])\<rparr>"


section \<open>Properties\<close>

subsection \<open>Strings, dictionaries and matching\<close>

lemmas engine_defs = process_voice_command_def log_command_def match_command_def
  execute_command_def execute_command_try_def execute_script_def handle_acknowledgment_def
  child_env_def now_def emit_def get_help_response_def dict_keys_def dict_get_def history_def ack_file_def
lemmas str_defs = strip_def lower_def lower_char_def isspace_def whitespace_def
  uppercase_def lowercase_def

lemma startswith_iff: "startswith s p \<longleftrightarrow> (\<exists>post. s = p @ post)"
  by (induction s p rule: startswith.induct) auto

lemma str_contains_iff: "str_contains s sub \<longleftrightarrow> (\<exists>pre post. s = pre @ sub @ post)"
proof (induction s)
  case Nil
  then show ?case by auto
next
  case (Cons c s)
  show ?case
  proof
    assume "str_contains (c # s) sub"
    then consider "startswith (c # s) sub" | "str_contains s sub" by auto
    then show "\<exists>pre post. c # s = pre @ sub @ post"
    proof cases
      case 1
      then obtain post where "c # s = sub @ post" by (auto simp: startswith_iff)
      then have "c # s = [] @ sub @ post" by simp
      then show ?thesis by blast
    next
      case 2
      then obtain pre post where "s = pre @ sub @ post" using Cons.IH by blast
      then have "c # s = (c # pre) @ sub @ post" by simp
      then show ?thesis by blast
    qed
  next
    assume "\<exists>pre post. c # s = pre @ sub @ post"
    then obtain pre post where e: "c # s = pre @ sub @ post" by blast
    show "str_contains (c # s) sub"
    proof (cases pre)
      case Nil
      with e have "startswith (c # s) sub" by (auto simp: startswith_iff)
      then show ?thesis by simp
    next
      case (Cons a pre')
      with e have "s = pre' @ sub @ post" by simp
      then have "str_contains s sub" using Cons.IH by blast
      then show ?thesis by simp
    qed
  qed
qed

lemma join_member: "x \<in> set xs \<Longrightarrow> \<exists>pre post. join sep xs = pre @ x @ post"
proof (induction sep xs rule: join.induct)
  case (1 sep)
  then show ?case by simp
next
  case (2 sep y)
  then have "join sep [y] = [] @ x @ []" by simp
  then show ?case by blast
next
  case (3 sep a b ys)
  show ?case
  proof (cases "x = a")
    case True
    then have "join sep (a # b # ys) = [] @ x @ (sep @ join sep (b # ys))" by simp
    then show ?thesis by blast
  next
    case False
    with 3 obtain pre post where "join sep (b # ys) = pre @ x @ post" by auto
    then have "join sep (a # b # ys) = (a @ sep @ pre) @ x @ post" by simp
    then show ?thesis by blast
  qed
qed

lemma help_lists_trigger:
  assumes "t \<in> set (dict_keys (command_whitelist s))"
  shows "str_contains (get_help_response s) t"
proof -
  obtain pre post where
    "join ([apostrophe] @ '', '' @ [apostrophe]) (dict_keys (command_whitelist s)) = pre @ t @ post"
    using join_member [OF assms] by blast
  then have "get_help_response s =
      (''Unknown command. Available commands: '' @ [apostrophe] @ pre) @ t @
      (post @ [apostrophe] @ ''. Please try again.'')"
    by (simp add: get_help_response_def)
  then show ?thesis unfolding str_contains_iff by blast
qed

lemma direct_match_None:
  "direct_match wl inp = None \<longleftrightarrow> (\<forall>t \<in> set (dict_keys wl). \<not> str_contains inp t)"
  by (induction wl inp rule: direct_match.induct) (auto simp: dict_keys_def)

lemma direct_match_first:
  "(\<forall>t \<in> set (dict_keys pre). \<not> str_contains inp t) \<Longrightarrow> str_contains inp T \<Longrightarrow>
   direct_match (pre @ (T, c) # post) inp = Some (T, c)"
  by (induction pre) (auto simp: dict_keys_def)

lemma direct_match_Some:
  "direct_match wl inp = Some (T, c) \<Longrightarrow> (T, c) \<in> set wl \<and> str_contains inp T"
  by (induction wl inp rule: direct_match.induct) (auto split: if_splits)

lemma fuzzy_match_None:
  "(\<forall>k \<in> set (dict_keys fm). \<not> str_contains inp k) \<Longrightarrow> fuzzy_match fm wl inp = Inr None"
  by (induction fm wl inp rule: fuzzy_match.induct) (auto simp: dict_keys_def)

lemma fuzzy_match_first:
  "(\<forall>k \<in> set (dict_keys pre). \<not> str_contains inp k) \<Longrightarrow> str_contains inp K \<Longrightarrow>
   fuzzy_match (pre @ (K, T) # post) wl inp =
     (case dict_get wl T of None \<Rightarrow> Inl (Exn (apostrophe # T @ [apostrophe]))
      | Some c \<Rightarrow> Inr (Some (T, c)))"
  by (induction pre) (auto simp: dict_keys_def)

lemma dict_get_set: "dict_get (dict_set d k v) k' = (if k' = k then Some v else dict_get d k')"
  by (induction d k v rule: dict_set.induct) (auto simp: dict_get_def)

lemma dict_keys_set:
  "dict_keys (dict_set d k v) = (if k \<in> set (dict_keys d) then dict_keys d else dict_keys d @ [k])"
  by (induction d k v rule: dict_set.induct) (auto simp: dict_keys_def)

subsection \<open>Frame properties\<close>

lemma log_command_frame:
  "command_whitelist (log_command w t cve s) = command_whitelist s"
  "command_history (log_command w t cve s) = command_history s"
  "next_ref (log_command w t cve s) = next_ref s"
  "environ (log_command w t cve s) = environ s"
  "files (log_command w t cve s) = files s"
  "trace (log_command w t cve s) = trace s"
  "clock (log_command w t cve s) = Suc (clock s)"
  by (simp_all add: log_command_def now_def)

lemma log_command_history:
  "history (log_command w t cve s) =
     history s @ [\<lparr>timestamp = now_isoformat w (clock s), command = t, cve_id = cve,
                    source = ''voice_command''\<rparr>]"
  by (simp add: log_command_def now_def history_def)

lemma execute_script_frame:
  "command_whitelist (snd (execute_script w p n cve s)) = command_whitelist s"
  "command_history (snd (execute_script w p n cve s)) = command_history s"
  "lists (snd (execute_script w p n cve s)) = lists s"
  "next_ref (snd (execute_script w p n cve s)) = next_ref s"
  "environ (snd (execute_script w p n cve s)) = environ s"
  "files (snd (execute_script w p n cve s)) = files s"
  by (simp_all add: execute_script_def now_def emit_def Let_def split: run_result.splits)

lemma handle_acknowledgment_frame:
  "command_whitelist (snd (handle_acknowledgment w cve s)) = command_whitelist s"
  "command_history (snd (handle_acknowledgment w cve s)) = command_history s"
  "lists (snd (handle_acknowledgment w cve s)) = lists s"
  "next_ref (snd (handle_acknowledgment w cve s)) = next_ref s"
  "environ (snd (handle_acknowledgment w cve s)) = environ s"
  by (simp_all add: handle_acknowledgment_def now_def emit_def Let_def split: option.splits)

lemma execute_command_try_frame:
  "command_whitelist (snd (execute_command_try w m cve s)) = command_whitelist s"
  "command_history (snd (execute_command_try w m cve s)) = command_history s"
  "lists (snd (execute_command_try w m cve s)) = lists s"
  "next_ref (snd (execute_command_try w m cve s)) = next_ref s"
  "environ (snd (execute_command_try w m cve s)) = environ s"
  by (simp_all add: execute_command_try_def Let_def execute_script_frame
        handle_acknowledgment_frame split: option.splits)

lemma execute_command_snd:
  "snd (execute_command w m original cve s) = snd (execute_command_try w m cve s)"
  by (simp add: execute_command_def split: prod.splits sum.splits exn.splits)

lemma execute_command_frame:
  "command_whitelist (snd (execute_command w m original cve s)) = command_whitelist s"
  "command_history (snd (execute_command w m original cve s)) = command_history s"
  "lists (snd (execute_command w m original cve s)) = lists s"
  "next_ref (snd (execute_command w m original cve s)) = next_ref s"
  "environ (snd (execute_command w m original cve s)) = environ s"
  by (simp_all add: execute_command_snd execute_command_try_frame)

lemma execute_command_history:
  "history (snd (execute_command w m original cve s)) = history s"
  by (simp add: history_def execute_command_frame)

lemma process_voice_command_history:
  "history (snd (process_voice_command w command_text cve s)) =
     history s @ [\<lparr>timestamp = now_isoformat w (clock s), command = strip (lower command_text),
                    cve_id = cve, source = ''voice_command''\<rparr>]"
  by (simp add: process_voice_command_def Let_def execute_command_history log_command_history
        split: sum.splits option.splits)

lemma process_voice_command_frame:
  "command_whitelist (snd (process_voice_command w command_text cve s)) = command_whitelist s"
  "command_history (snd (process_voice_command w command_text cve s)) = command_history s"
  "next_ref (snd (process_voice_command w command_text cve s)) = next_ref s"
  "environ (snd (process_voice_command w command_text cve s)) = environ s"
  by (simp_all add: process_voice_command_def Let_def execute_command_frame log_command_frame
        split: sum.splits option.splits)

lemma get_command_history_history:
  "history (snd (get_command_history s)) = history s"
  by (simp add: get_command_history_def history_def)

lemma add_custom_command_history:
  "history (add_custom_command trigger p d s) = history s"
  by (simp add: add_custom_command_def history_def)

lemma apply_operation_history:
  "history (apply_operation x s) =
     history s @ drop (length (history s)) (history (apply_operation x s)) \<and>
   length (history (apply_operation x s)) = length (history s) + utterances [x]"
  by (cases x)
     (simp_all add: process_voice_command_history get_command_history_history
        add_custom_command_history)

lemma utterances_Cons: "utterances (x # xs) = utterances [x] + utterances xs"
  by (cases x) simp_all

lemma run_operations_history:
  "take (length (history s)) (history (run_operations ops s)) = history s \<and>
   length (history (run_operations ops s)) = length (history s) + utterances ops"
proof (induction ops arbitrary: s)
  case Nil
  then show ?case by simp
next
  case (Cons x xs)
  let ?s1 = "apply_operation x s"
  have a: "history ?s1 = history s @ drop (length (history s)) (history ?s1)"
    and b: "length (history ?s1) = length (history s) + utterances [x]"
    using apply_operation_history [of x s] by blast+
  have c: "take (length (history ?s1)) (history (run_operations xs ?s1)) = history ?s1"
    and d: "length (history (run_operations xs ?s1)) = length (history ?s1) + utterances xs"
    using Cons.IH [of ?s1] by blast+
  have "take (length (history s)) (history (run_operations xs ?s1)) =
        take (length (history s)) (take (length (history ?s1)) (history (run_operations xs ?s1)))"
    using b by (simp add: min_def)
  also have "\<dots> = take (length (history s)) (history ?s1)" using c by simp
  also have "\<dots> = history s" using a by (metis append_eq_conv_conj)
  finally have "take (length (history s)) (history (run_operations (x # xs) s)) = history s"
    by simp
  moreover have "length (history (run_operations (x # xs) s)) =
      length (history s) + utterances (x # xs)"
    using b d utterances_Cons [of x xs] by simp
  ultimately show ?case by blast
qed

subsection \<open>Results and traces of execution\<close>

lemma execute_script_fst:
  "fst (execute_script w p n cve s) =
    (if \<not> path_exists w p then
       Inr (''Script '' @ p @ '' not found. Please check configuration.'')
     else if \<not> access_x_ok w p then Inr (''Script '' @ p @ '' is not executable.'')
     else case subprocess_run w p (child_env (environ s) cve (now_isoformat w (clock s))) of
            Completed rc out err \<Rightarrow>
              if rc = 0 then Inr (n @ '' completed successfully.'')
              else Inr (n @ '' failed. Check logs for details.'')
          | TimeoutExpired \<Rightarrow> Inr (n @ '' timed out after 5 minutes.'')
          | Raised e \<Rightarrow> Inr (''Error executing '' @ n @ '': '' @ e))"
  by (simp add: execute_script_def now_def emit_def Let_def split: run_result.splits)

lemma execute_script_trace:
  "trace (snd (execute_script w p n cve s)) =
    (if \<not> path_exists w p then trace s @ [PathExists p]
     else if \<not> access_x_ok w p then trace s @ [PathExists p, AccessXOk p]
     else trace s @ [PathExists p, AccessXOk p,
            SubprocessRun [p] (child_env (environ s) cve (now_isoformat w (clock s))) 300])"
  by (simp add: execute_script_def now_def emit_def Let_def split: run_result.splits)

lemma execute_script_returns: "\<exists>msg. fst (execute_script w p n cve s) = Inr msg"
  by (simp add: execute_script_fst split: run_result.splits)

lemma handle_acknowledgment_fst:
  "fst (handle_acknowledgment w cve s) =
    (case makedirs_raises w ''logs'' of Some e \<Rightarrow> Inl (Exn e)
     | None \<Rightarrow> Inr ''Incident acknowledged and logged.'')"
  by (simp add: handle_acknowledgment_def now_def emit_def Let_def split: option.splits)

lemma handle_acknowledgment_trace:
  "trace (snd (handle_acknowledgment w cve s)) = trace s @ [MakeDirs ''logs'']"
  by (simp add: handle_acknowledgment_def now_def emit_def Let_def split: option.splits)

lemma handle_acknowledgment_files:
  "files (snd (handle_acknowledgment w cve s)) =
    (case makedirs_raises w ''logs'' of
       Some e \<Rightarrow> files s
     | None \<Rightarrow>
         (files s)(ack_file := files s ack_file @
           (case append_raises w ack_file (now_isoformat w (clock s) @
                  '': Incident acknowledged at '' @ now_isoformat w (clock s) @
                  (case truthy cve of Some c \<Rightarrow> '' for '' @ c | None \<Rightarrow> []) @ [line_feed]) of
              Some written \<Rightarrow> written
            | None \<Rightarrow> now_isoformat w (clock s) @
                  '': Incident acknowledged at '' @ now_isoformat w (clock s) @
                  (case truthy cve of Some c \<Rightarrow> '' for '' @ c | None \<Rightarrow> []) @ [line_feed])))"
  by (auto simp add: handle_acknowledgment_def now_def emit_def Let_def split: option.splits)

lemma execute_command_fst:
  "fst (execute_command w m original cve s) =
    (case fst (execute_command_try w m cve s) of
       Inl (Exn e) \<Rightarrow> Inr (''Failed to execute '' @ fst m @ ''. Error: '' @ e)
     | Inr msg \<Rightarrow> Inr msg)"
  by (simp add: execute_command_def split: prod.splits sum.splits exn.splits)

lemma execute_command_returns: "\<exists>msg. fst (execute_command w m original cve s) = Inr msg"
  by (simp add: execute_command_fst split: sum.splits exn.splits)

lemma execute_command_script:
  "fst m \<noteq> ''acknowledge incident'' \<Longrightarrow> truthy (script (snd m)) = Some p \<Longrightarrow>
   fst (execute_command w m original cve s) = fst (execute_script w p (fst m) cve s)"
  using execute_script_returns [of w p "fst m" cve s]
  by (auto simp add: execute_command_fst execute_command_try_def Let_def)

lemma execute_command_acknowledge:
  "fst m = ''acknowledge incident'' \<Longrightarrow>
   fst (execute_command w m original cve s) =
     (case makedirs_raises w ''logs'' of
        Some e \<Rightarrow> Inr (''Failed to execute acknowledge incident. Error: '' @ e)
      | None \<Rightarrow> Inr ''Incident acknowledged and logged.'')"
  by (simp add: execute_command_fst execute_command_try_def Let_def handle_acknowledgment_fst
        split: option.splits)

lemma process_voice_command_matched:
  "match_command (command_whitelist s) (strip (lower command_text)) = Inr (Some m) \<Longrightarrow>
   process_voice_command w command_text cve s =
     execute_command w m (strip (lower command_text)) cve
       (log_command w (strip (lower command_text)) cve s)"
  by (simp add: process_voice_command_def Let_def log_command_frame)




lemma child_env_get:
  "dict_get (child_env parent cve t) k =
     (if k = ''TIMESTAMP'' then Some t
      else if k = ''CVE_ID'' then
        (case truthy cve of Some c \<Rightarrow> Some c | None \<Rightarrow> dict_get parent ''CVE_ID'')
      else dict_get parent k)"
  by (simp add: child_env_def Let_def dict_get_set split: option.splits)

lemma match_command_direct:
  "(\<forall>t \<in> set (dict_keys pre). \<not> str_contains u t) \<Longrightarrow> str_contains u T \<Longrightarrow>
   match_command (pre @ (T, c) # post) u = Inr (Some (T, c))"
  by (simp add: match_command_def direct_match_first)

lemma match_command_fuzzy:
  assumes "\<forall>t \<in> set (dict_keys wl). \<not> str_contains u t"
    and "fuzzy_matches = fpre @ (K, T) # fpost"
    and "\<forall>k \<in> set (dict_keys fpre). \<not> str_contains u k"
    and "str_contains u K"
    and "dict_get wl T = Some c"
  shows "match_command wl u = Inr (Some (T, c))"
proof -
  have "direct_match wl u = None" using assms(1) by (simp add: direct_match_None)
  moreover have "fuzzy_match (fpre @ (K, T) # fpost) wl u = Inr (Some (T, c))"
    using fuzzy_match_first [OF assms(3,4), of T fpost wl] assms(5) by simp
  ultimately show ?thesis by (simp add: match_command_def assms(2))
qed

lemma match_command_some_direct:
  assumes "(T, c) \<in> set wl" and "str_contains u T"
  shows "\<exists>T' c'. match_command wl u = Inr (Some (T', c')) \<and> (T', c') \<in> set wl \<and>
           str_contains u T'"
proof -
  have "T \<in> set (dict_keys wl)" using assms(1) by (force simp: dict_keys_def)
  then have "direct_match wl u \<noteq> None" using assms(2) by (auto simp: direct_match_None)
  then obtain T' c' where d: "direct_match wl u = Some (T', c')" by (cases "direct_match wl u") auto
  then have "(T', c') \<in> set wl \<and> str_contains u T'" by (rule direct_match_Some)
  moreover have "match_command wl u = Inr (Some (T', c'))" using d by (simp add: match_command_def)
  ultimately show ?thesis by blast
qed

lemma match_command_none:
  assumes "\<forall>t \<in> set (dict_keys wl). \<not> str_contains u t"
    and "\<forall>k \<in> set (dict_keys fuzzy_matches). \<not> str_contains u k"
  shows "match_command wl u = Inr None"
proof -
  have "direct_match wl u = None" using assms(1) by (simp add: direct_match_None)
  moreover have "fuzzy_match fuzzy_matches wl u = Inr None"
    using assms(2) by (rule fuzzy_match_None)
  ultimately show ?thesis by (simp add: match_command_def)
qed

lemma log_command_lists_other:
  "r \<noteq> command_history s \<Longrightarrow> lists (log_command w t cve s) r = lists s r"
  by (simp add: log_command_def now_def)

lemma mutate_list_frame:
  "command_whitelist (mutate_list r f s) = command_whitelist s"
  "command_history (mutate_list r f s) = command_history s"
  "next_ref (mutate_list r f s) = next_ref s"
  "clock (mutate_list r f s) = clock s"
  by (simp_all add: mutate_list_def)

lemma mutate_list_history:
  "r \<noteq> command_history s \<Longrightarrow> history (mutate_list r f s) = history s"
  by (simp add: mutate_list_def history_def)

lemma get_command_history_frame:
  "command_history (snd (get_command_history s)) = command_history s"
  "next_ref (snd (get_command_history s)) = Suc (next_ref s)"
  "clock (snd (get_command_history s)) = clock s"
  "fst (get_command_history s) = next_ref s"
  by (simp_all add: get_command_history_def)

lemma get_command_history_returns:
  "lists (snd (get_command_history s)) (fst (get_command_history s)) = history s"
  by (simp add: get_command_history_def history_def)

lemma apply_operation_allocated:
  "command_history s < next_ref s \<Longrightarrow>
   command_history (apply_operation x s) < next_ref (apply_operation x s)"
  by (cases x)
     (simp_all add: process_voice_command_frame get_command_history_frame add_custom_command_def)

lemma run_operations_allocated:
  "command_history s < next_ref s \<Longrightarrow>
   command_history (run_operations ops s) < next_ref (run_operations ops s)"
  by (induction ops arbitrary: s) (simp_all add: apply_operation_allocated)

lemma new_engine_allocated: "command_history (new_engine env) < next_ref (new_engine env)"
  by (simp add: new_engine_def)

section \<open>The claims\<close>

text \<open>
  C6. Every call of \<open>process_voice_command\<close> appends exactly one entry to the command
  history, whatever the matching and the execution do afterwards (no match, an exception,
  a failing script): the entry is the one \<open>_log_command\<close> builds from the normalised
  text before \<open>_match_command\<close> runs. Over any run of the engine's methods the history
  present at the start stays as a prefix, entry by entry, and the history grows by the
  number of utterances processed.
\<close>

theorem history_append_only:
  "history (snd (process_voice_command w command_text cve s)) =
     history s @ [\<lparr>timestamp = now_isoformat w (clock s), command = strip (lower command_text),
                    cve_id = cve, source = ''voice_command''\<rparr>] \<and>
   take (length (history s)) (history (run_operations ops s)) = history s \<and>
   length (history (run_operations ops s)) = length (history s) + utterances ops"
  using process_voice_command_history run_operations_history by blast

text \<open>
  The history after one unmatched utterance on a new engine, and its length after a run of
  four calls, two of them utterances.
\<close>

theorem history_append_only_witness:
  "history (snd (process_voice_command (world_exit 0 []) ''xyzzy'' None (new_engine []))) =
     [\<lparr>timestamp = ''2025-12-05T10:00:00'', command = ''xyzzy'', cve_id = None,
       source = ''voice_command''\<rparr>] \<and>
   length (history (run_operations
      [ProcessVoiceCommand (world_exit 0 []) ''xyzzy'' None, GetCommandHistory,
       AddCustomCommand ''reboot'' ''scripts/reboot.sh'' ''Reboot'',
       ProcessVoiceCommand (world_exit 0 []) ''reboot'' None] (new_engine []))) = 2"
  using history_append_only [of "world_exit 0 []" "''xyzzy''" None "new_engine []"
      "[ProcessVoiceCommand (world_exit 0 []) ''xyzzy'' None, GetCommandHistory,
       AddCustomCommand ''reboot'' ''scripts/reboot.sh'' ''Reboot'',
       ProcessVoiceCommand (world_exit 0 []) ''reboot'' None]"]
  by (simp add: history_def new_engine_def world_exit_def str_defs)

text \<open>
  C3. An input whose normalised form contains no registered trigger and no fuzzy keyword
  gets the help response, which contains every trigger of the registry; for the default
  registry it is the sentence naming the five default triggers.
\<close>

theorem unmatched_returns_help:
  assumes "\<forall>t \<in> set (dict_keys (command_whitelist s)).
             \<not> str_contains (strip (lower command_text)) t"
    and "\<forall>k \<in> set (dict_keys fuzzy_matches). \<not> str_contains (strip (lower command_text)) k"
  shows "fst (process_voice_command w command_text cve s) = Inr (get_help_response s) \<and>
         (\<forall>t \<in> set (dict_keys (command_whitelist s)). str_contains (get_help_response s) t) \<and>
         (command_whitelist s = default_whitelist \<longrightarrow>
            get_help_response s =
              ''Unknown command. Available commands: '' @ [apostrophe] @ ''start patching'' @
              [apostrophe] @ '', '' @ [apostrophe] @ ''quarantine servers'' @
              [apostrophe] @ '', '' @ [apostrophe] @ ''acknowledge incident'' @
              [apostrophe] @ '', '' @ [apostrophe] @ ''emergency shutdown'' @
              [apostrophe] @ '', '' @ [apostrophe] @ ''status report'' @
              [apostrophe] @ ''. Please try again.'')"
proof -
  let ?u = "strip (lower command_text)"
  let ?s1 = "log_command w ?u cve s"
  have wl: "command_whitelist ?s1 = command_whitelist s" by (simp add: log_command_frame)
  have "direct_match (command_whitelist s) ?u = None"
    using assms(1) by (simp add: direct_match_None)
  moreover have "fuzzy_match fuzzy_matches (command_whitelist s) ?u = Inr None"
    using assms(2) by (rule fuzzy_match_None)
  ultimately have "match_command (command_whitelist ?s1) ?u = Inr None"
    by (simp add: match_command_def wl)
  then have "fst (process_voice_command w command_text cve s) = Inr (get_help_response ?s1)"
    by (simp add: process_voice_command_def Let_def)
  moreover have "get_help_response ?s1 = get_help_response s"
    by (simp add: get_help_response_def wl)
  moreover have "\<forall>t \<in> set (dict_keys (command_whitelist s)). str_contains (get_help_response s) t"
    using help_lists_trigger by blast
  moreover have "command_whitelist s = default_whitelist \<longrightarrow>
            get_help_response s =
              ''Unknown command. Available commands: '' @ [apostrophe] @ ''start patching'' @
              [apostrophe] @ '', '' @ [apostrophe] @ ''quarantine servers'' @
              [apostrophe] @ '', '' @ [apostrophe] @ ''acknowledge incident'' @
              [apostrophe] @ '', '' @ [apostrophe] @ ''emergency shutdown'' @
              [apostrophe] @ '', '' @ [apostrophe] @ ''status report'' @
              [apostrophe] @ ''. Please try again.''"
    by (simp add: get_help_response_def default_whitelist_def dict_keys_def)
  ultimately show ?thesis by simp
qed

text \<open>
  The scenario of the specification: \<open>xyzzy\<close> on a new engine.
\<close>

theorem unmatched_returns_help_witness:
  "fst (process_voice_command (world_exit 0 []) ''  XYZZY '' None (new_engine [])) =
     Inr (''Unknown command. Available commands: '' @ [apostrophe] @ ''start patching'' @
              [apostrophe] @ '', '' @ [apostrophe] @ ''quarantine servers'' @
              [apostrophe] @ '', '' @ [apostrophe] @ ''acknowledge incident'' @
              [apostrophe] @ '', '' @ [apostrophe] @ ''emergency shutdown'' @
              [apostrophe] @ '', '' @ [apostrophe] @ ''status report'' @
              [apostrophe] @ ''. Please try again.'') \<and>
   str_contains (get_help_response (new_engine [])) ''emergency shutdown''"
proof -
  have u: "strip (lower ''  XYZZY '') = ''xyzzy''" by (simp add: str_defs)
  have a: "\<forall>t \<in> set (dict_keys (command_whitelist (new_engine []))).
             \<not> str_contains (strip (lower ''  XYZZY '')) t"
    unfolding u by (simp add: new_engine_def default_whitelist_def dict_keys_def)
  have b: "\<forall>k \<in> set (dict_keys fuzzy_matches). \<not> str_contains (strip (lower ''  XYZZY '')) k"
    unfolding u by (simp add: fuzzy_matches_def dict_keys_def)
  have c: "command_whitelist (new_engine []) = default_whitelist" by (simp add: new_engine_def)
  have d: "''emergency shutdown'' \<in> set (dict_keys (command_whitelist (new_engine [])))"
    by (simp add: new_engine_def default_whitelist_def dict_keys_def)
  show ?thesis
    using unmatched_returns_help [OF a b, of "world_exit 0 []" None] c d by simp
qed

text \<open>
  C7, as the code has it. \<open>add_custom_command\<close> has no failure and no overwrite flag: the
  entry under the lower-cased trigger becomes the new one (with confirmation required),
  whether or not the trigger was present; the other entries keep their values; a trigger
  already present keeps its place in the order, a new one goes to the end.
\<close>

theorem add_custom_command_replaces:
  "dict_get (command_whitelist (add_custom_command trigger script_path descr s)) (lower trigger) =
     Some \<lparr>script = Some script_path, description = descr, requires_confirmation = True\<rparr> \<and>
   (\<forall>k. k \<noteq> lower trigger \<longrightarrow>
      dict_get (command_whitelist (add_custom_command trigger script_path descr s)) k =
      dict_get (command_whitelist s) k) \<and>
   dict_keys (command_whitelist (add_custom_command trigger script_path descr s)) =
     (if lower trigger \<in> set (dict_keys (command_whitelist s))
      then dict_keys (command_whitelist s)
      else dict_keys (command_whitelist s) @ [lower trigger]) \<and>
   history (add_custom_command trigger script_path descr s) = history s"
  by (simp add: add_custom_command_def dict_get_set dict_keys_set history_def)

text \<open>
  Registering under \<open>Status Report\<close> on a new engine.
\<close>

theorem add_custom_command_replaces_witness:
  "dict_get (command_whitelist
      (add_custom_command ''Status Report'' ''scripts/other.sh'' ''Other'' (new_engine [])))
      ''status report'' =
     Some \<lparr>script = Some ''scripts/other.sh'', description = ''Other'',
           requires_confirmation = True\<rparr> \<and>
   dict_get (command_whitelist
      (add_custom_command ''Status Report'' ''scripts/other.sh'' ''Other'' (new_engine [])))
      ''start patching'' = dict_get (command_whitelist (new_engine [])) ''start patching'' \<and>
   dict_keys (command_whitelist
      (add_custom_command ''Status Report'' ''scripts/other.sh'' ''Other'' (new_engine []))) =
     dict_keys (command_whitelist (new_engine []))"
proof -
  have l: "lower ''Status Report'' = ''status report''" by (simp add: str_defs)
  have m: "''status report'' \<in> set (dict_keys (command_whitelist (new_engine [])))"
    by (simp add: new_engine_def default_whitelist_def dict_keys_def)
  have n: "''start patching'' \<noteq> lower ''Status Report''" unfolding l by simp
  show ?thesis
    using add_custom_command_replaces
      [of "''Status Report''" "''scripts/other.sh''" "''Other''" "new_engine []"] l m n
    by simp
qed

text \<open>
  C7 as stated fails: registering under the existing trigger \<open>start patching\<close>, with
  nothing that asks for an overwrite, replaces the entry.
\<close>

theorem register_existing_trigger_counterexample:
  "dict_get (command_whitelist (new_engine [])) ''start patching'' =
     Some \<lparr>script = Some ''scripts/patch_r2s.sh'',
           description = ''Initiate automated patching process'',
           requires_confirmation = False\<rparr> \<and>
   dict_get (command_whitelist
      (add_custom_command ''start patching'' ''scripts/other.sh'' ''Other'' (new_engine [])))
      ''start patching'' =
     Some \<lparr>script = Some ''scripts/other.sh'', description = ''Other'',
           requires_confirmation = True\<rparr>"
  by (simp add: add_custom_command_def new_engine_def default_whitelist_def dict_get_def str_defs)

text \<open>
  C5, as the code has it. Executing a matched command always returns a string and never
  an exception, and so does \<open>process_voice_command\<close> whenever the input is matched. For a
  script-backed command the string describes the fault: the configuration error when the
  script is missing or not executable, the failure, timeout or error message when
  \<open>subprocess.run\<close> returns a non-zero code, raises \<open>TimeoutExpired\<close> or raises anything
  else. For the acknowledgment, a failure of \<open>os.makedirs\<close> becomes the
  \<open>Failed to execute\<close> message; a failure to open or write the log file is swallowed by
  the handler and the ordinary confirmation is returned.
\<close>

theorem dispatch_returns_string:
  "(\<exists>msg. fst (execute_command w m original cve s) = Inr msg) \<and>
   (match_command (command_whitelist s) (strip (lower command_text)) = Inr (Some m) \<longrightarrow>
      (\<exists>msg. fst (process_voice_command w command_text cve s) = Inr msg)) \<and>
   (fst m \<noteq> ''acknowledge incident'' \<and> truthy (script (snd m)) = Some p \<longrightarrow>
      fst (execute_command w m original cve s) =
        (if \<not> path_exists w p then
           Inr (''Script '' @ p @ '' not found. Please check configuration.'')
         else if \<not> access_x_ok w p then Inr (''Script '' @ p @ '' is not executable.'')
         else case subprocess_run w p (child_env (environ s) cve (now_isoformat w (clock s))) of
                Completed rc out err \<Rightarrow>
                  if rc = 0 then Inr (fst m @ '' completed successfully.'')
                  else Inr (fst m @ '' failed. Check logs for details.'')
              | TimeoutExpired \<Rightarrow> Inr (fst m @ '' timed out after 5 minutes.'')
              | Raised e \<Rightarrow> Inr (''Error executing '' @ fst m @ '': '' @ e))) \<and>
   (fst m = ''acknowledge incident'' \<longrightarrow>
      fst (execute_command w m original cve s) =
        (case makedirs_raises w ''logs'' of
           Some e \<Rightarrow> Inr (''Failed to execute acknowledge incident. Error: '' @ e)
         | None \<Rightarrow> Inr ''Incident acknowledged and logged.'')) \<and>
   (fst m = ''acknowledge incident'' \<and> makedirs_raises w ''logs'' = None \<and>
      append_raises w ack_file line = Some written \<longrightarrow>
      fst (execute_command w m original cve s) = Inr ''Incident acknowledged and logged.'')"
proof -
  have a: "\<exists>msg. fst (execute_command w m original cve s) = Inr msg"
    by (rule execute_command_returns)
  have b: "match_command (command_whitelist s) (strip (lower command_text)) = Inr (Some m) \<longrightarrow>
      (\<exists>msg. fst (process_voice_command w command_text cve s) = Inr msg)"
    by (simp add: process_voice_command_matched execute_command_returns)
  have c: "fst m \<noteq> ''acknowledge incident'' \<and> truthy (script (snd m)) = Some p \<longrightarrow>
      fst (execute_command w m original cve s) = fst (execute_script w p (fst m) cve s)"
    by (simp add: execute_command_script)
  have d: "fst m = ''acknowledge incident'' \<longrightarrow>
      fst (execute_command w m original cve s) =
        (case makedirs_raises w ''logs'' of
           Some e \<Rightarrow> Inr (''Failed to execute acknowledge incident. Error: '' @ e)
         | None \<Rightarrow> Inr ''Incident acknowledged and logged.'')"
    by (simp add: execute_command_acknowledge)
  have e: "fst m = ''acknowledge incident'' \<and> makedirs_raises w ''logs'' = None \<and>
      append_raises w ack_file line = Some written \<longrightarrow>
      fst (execute_command w m original cve s) = Inr ''Incident acknowledged and logged.''"
    by (simp add: execute_command_acknowledge)
  from a b c d e show ?thesis unfolding execute_script_fst by blast
qed

text \<open>
  A new engine in a world with no script installed: \<open>start patching\<close> gets the
  configuration error.
\<close>

theorem dispatch_returns_string_witness:
  "fst (process_voice_command world_no_scripts ''start patching'' (Some ''CVE-2025-55182'')
          (new_engine [])) =
     Inr ''Script scripts/patch_r2s.sh not found. Please check configuration.'' \<and>
   fst (execute_command world_no_scripts
          (''start patching'',
           \<lparr>script = Some ''scripts/patch_r2s.sh'',
            description = ''Initiate automated patching process'',
            requires_confirmation = False\<rparr>) ''start patching'' None (new_engine [])) =
     Inr ''Script scripts/patch_r2s.sh not found. Please check configuration.''"
proof -
  let ?m = "(''start patching'',
           \<lparr>script = Some ''scripts/patch_r2s.sh'',
            description = ''Initiate automated patching process'',
            requires_confirmation = False\<rparr>)"
  have u: "strip (lower ''start patching'') = ''start patching''" by (simp add: str_defs)
  have a: "match_command (command_whitelist (new_engine [])) (strip (lower ''start patching'')) =
      Inr (Some ?m)"
    unfolding u by (simp add: match_command_def new_engine_def default_whitelist_def)
  have b: "fst ?m \<noteq> ''acknowledge incident'' \<and>
      truthy (script (snd ?m)) = Some ''scripts/patch_r2s.sh''" by simp
  have c: "\<not> path_exists world_no_scripts ''scripts/patch_r2s.sh''"
    by (simp add: world_no_scripts_def)
  have d: "process_voice_command world_no_scripts ''start patching'' (Some ''CVE-2025-55182'')
          (new_engine []) =
        execute_command world_no_scripts ?m ''start patching'' (Some ''CVE-2025-55182'')
          (log_command world_no_scripts ''start patching'' (Some ''CVE-2025-55182'')
             (new_engine []))"
    using process_voice_command_matched [OF a] unfolding u by simp
  show ?thesis
    using dispatch_returns_string [where w = world_no_scripts and m = ?m
            and original = "''start patching''" and cve = "Some ''CVE-2025-55182''"
            and s = "log_command world_no_scripts ''start patching'' (Some ''CVE-2025-55182'')
               (new_engine [])" and p = "''scripts/patch_r2s.sh''"]
          dispatch_returns_string [where w = world_no_scripts and m = ?m
            and original = "''start patching''" and cve = None
            and s = "new_engine []" and p = "''scripts/patch_r2s.sh''"]
          b c d
    by simp
qed

text \<open>
  C5 as stated fails: the acknowledgment executed in a world where the log file cannot be
  opened returns the same sentence as in a world where it can; the string does not describe
  the fault.
\<close>

theorem swallowed_write_fault_counterexample:
  "append_raises world_readonly ack_file
     (''2025-12-05T10:00:00: Incident acknowledged at 2025-12-05T10:00:00'' @ [line_feed]) =
     Some [] \<and>
   append_raises (world_exit 0 []) ack_file
     (''2025-12-05T10:00:00: Incident acknowledged at 2025-12-05T10:00:00'' @ [line_feed]) =
     None \<and>
   fst (execute_command world_readonly
          (''acknowledge incident'',
           \<lparr>script = None, description = ''Log incident acknowledgment'',
            requires_confirmation = False\<rparr>) ''acknowledge incident'' None (new_engine [])) =
     Inr ''Incident acknowledged and logged.'' \<and>
   fst (execute_command (world_exit 0 [])
          (''acknowledge incident'',
           \<lparr>script = None, description = ''Log incident acknowledgment'',
            requires_confirmation = False\<rparr>) ''acknowledge incident'' None (new_engine [])) =
     Inr ''Incident acknowledged and logged.''"
  by (simp add: execute_command_acknowledge world_readonly_def world_exit_def is_ascii_def)




text \<open>
  C8, as the code has it. The built-in handler is chosen by the trigger, not by the missing
  script: the trigger \<open>acknowledge incident\<close> runs \<open>_handle_acknowledgment\<close> whatever the
  entry's script is, and an entry with no script under any other trigger gets the
  \<open>recognized but no action configured\<close> message with nothing done. In neither case is the
  script path taken: no existence check, no access check, no child process.
\<close>

theorem builtin_handler_by_trigger:
  "(fst m = ''acknowledge incident'' \<longrightarrow>
      execute_command w m original cve s =
        (case handle_acknowledgment w cve s of
           (Inl (Exn e), s') \<Rightarrow>
             (Inr (''Failed to execute acknowledge incident. Error: '' @ e), s')
         | (Inr msg, s') \<Rightarrow> (Inr msg, s'))) \<and>
   (fst m \<noteq> ''acknowledge incident'' \<and> script (snd m) = None \<longrightarrow>
      execute_command w m original cve s =
        (Inr (''Command '' @ [apostrophe] @ fst m @ [apostrophe] @
              '' recognized but no action configured.''), s)) \<and>
   (script (snd m) = None \<longrightarrow>
      trace (snd (execute_command w m original cve s)) =
        (if fst m = ''acknowledge incident'' then trace s @ [MakeDirs ''logs''] else trace s))"
proof -
  have a: "fst m = ''acknowledge incident'' \<longrightarrow>
      execute_command w m original cve s =
        (case handle_acknowledgment w cve s of
           (Inl (Exn e), s') \<Rightarrow>
             (Inr (''Failed to execute acknowledge incident. Error: '' @ e), s')
         | (Inr msg, s') \<Rightarrow> (Inr msg, s'))"
    by (auto simp add: execute_command_def execute_command_try_def Let_def
          split: prod.splits sum.splits exn.splits)
  have b: "fst m \<noteq> ''acknowledge incident'' \<and> script (snd m) = None \<longrightarrow>
      execute_command w m original cve s =
        (Inr (''Command '' @ [apostrophe] @ fst m @ [apostrophe] @
              '' recognized but no action configured.''), s)"
    by (simp add: execute_command_def execute_command_try_def Let_def)
  have c: "script (snd m) = None \<longrightarrow>
      trace (snd (execute_command w m original cve s)) =
        (if fst m = ''acknowledge incident'' then trace s @ [MakeDirs ''logs''] else trace s)"
    by (simp add: execute_command_snd execute_command_try_def Let_def
          handle_acknowledgment_trace)
  from a b c show ?thesis by blast
qed

text \<open>
  The acknowledgment entry, and an entry without script under another trigger.
\<close>

theorem builtin_handler_by_trigger_witness:
  "execute_command (world_exit 0 [])
     (''acknowledge incident'',
      \<lparr>script = None, description = ''Log incident acknowledgment'',
       requires_confirmation = False\<rparr>) ''ack'' None (new_engine []) =
     (Inr ''Incident acknowledged and logged.'',
      snd (handle_acknowledgment (world_exit 0 []) None (new_engine []))) \<and>
   trace (snd (execute_command (world_exit 0 [])
     (''run diagnostics'',
      \<lparr>script = None, description = ''Diagnostics'', requires_confirmation = True\<rparr>)
     ''run diagnostics'' None (new_engine []))) = [MakeDirs ''scripts'']"
proof -
  let ?a = "(''acknowledge incident'',
      \<lparr>script = None, description = ''Log incident acknowledgment'',
       requires_confirmation = False\<rparr>)"
  let ?d = "(''run diagnostics'',
      \<lparr>script = None, description = ''Diagnostics'', requires_confirmation = True\<rparr>)"
  have h: "handle_acknowledgment (world_exit 0 []) None (new_engine []) =
      (Inr ''Incident acknowledged and logged.'',
       snd (handle_acknowledgment (world_exit 0 []) None (new_engine [])))"
    by (simp add: handle_acknowledgment_def now_def emit_def Let_def world_exit_def)
  have t: "trace (new_engine []) = [MakeDirs ''scripts'']" by (simp add: new_engine_def)
  have "execute_command (world_exit 0 []) ?a ''ack'' None (new_engine []) =
     (Inr ''Incident acknowledged and logged.'',
      snd (handle_acknowledgment (world_exit 0 []) None (new_engine [])))"
    using builtin_handler_by_trigger [where m = ?a and w = "world_exit 0 []"
        and original = "''ack''" and cve = None and s = "new_engine []"]
    by (subst (asm) h) simp
  moreover have "trace (snd (execute_command (world_exit 0 []) ?d
     ''run diagnostics'' None (new_engine []))) = [MakeDirs ''scripts'']"
    using builtin_handler_by_trigger [where m = ?d and w = "world_exit 0 []"
        and original = "''run diagnostics''" and cve = None and s = "new_engine []"] t
    by simp
  ultimately show ?thesis by blast
qed

text \<open>
  C8 as stated fails: an entry without script under the trigger \<open>run diagnostics\<close> gets the
  fallback message and the state is unchanged, so no handler ran.
\<close>

theorem no_script_fallback_counterexample:
  "script \<lparr>script = None, description = ''Diagnostics'', requires_confirmation = True\<rparr> = None \<and>
   execute_command (world_exit 0 [])
     (''run diagnostics'',
      \<lparr>script = None, description = ''Diagnostics'', requires_confirmation = True\<rparr>)
     ''run diagnostics'' None (new_engine []) =
     (Inr (''Command '' @ [apostrophe] @ ''run diagnostics'' @ [apostrophe] @
           '' recognized but no action configured.''), new_engine [])"
  by (simp add: execute_command_def execute_command_try_def Let_def)

text \<open>
  C2, as the code has it. On the normalised input \<open>u\<close>, \<open>_match_command\<close> returns the entry
  of the first trigger, in the insertion order of the registry, that occurs in \<open>u\<close>; so an
  input containing a registered trigger always resolves to a registered entry whose trigger
  occurs in it, whatever fuzzy keywords it contains, and to the entry of \<open>T\<close> itself when no
  trigger registered before \<open>T\<close> occurs in it. Only when no trigger occurs is the fuzzy table
  consulted: the input resolves to the entry of the trigger of the first keyword, in table
  order, that occurs in it; so to the entry of \<open>T\<close> when \<open>K\<close> is mapped to \<open>T\<close> and no
  keyword before \<open>K\<close> in the table occurs in it. When neither a trigger nor a keyword occurs,
  nothing is matched.
\<close>

theorem match_command_resolution_order:
  "(wl = pre @ (T, c) # post \<and> (\<forall>t \<in> set (dict_keys pre). \<not> str_contains u t) \<and>
      str_contains u T \<longrightarrow> match_command wl u = Inr (Some (T, c))) \<and>
   ((T, c) \<in> set wl \<and> str_contains u T \<longrightarrow>
      (\<exists>T' c'. match_command wl u = Inr (Some (T', c')) \<and> (T', c') \<in> set wl \<and>
         str_contains u T')) \<and>
   ((\<forall>t \<in> set (dict_keys wl). \<not> str_contains u t) \<and>
      fuzzy_matches = fpre @ (K, T) # fpost \<and>
      (\<forall>k \<in> set (dict_keys fpre). \<not> str_contains u k) \<and> str_contains u K \<and>
      dict_get wl T = Some c \<longrightarrow> match_command wl u = Inr (Some (T, c))) \<and>
   ((\<forall>t \<in> set (dict_keys wl). \<not> str_contains u t) \<and>
      (\<forall>k \<in> set (dict_keys fuzzy_matches). \<not> str_contains u k) \<longrightarrow>
      match_command wl u = Inr None)"
  using match_command_direct [of pre u T c post] match_command_some_direct [of T c wl u]
    match_command_fuzzy [of wl u fpre K T fpost c] match_command_none [of wl u]
  by blast

text \<open>
  The default registry: \<open>show status report\<close> resolves to the last registered trigger,
  \<open>ack\<close> resolves through the fifth keyword of the table.
\<close>

theorem match_command_resolution_order_witness:
  "match_command default_whitelist ''show status report'' =
     Inr (Some (''status report'',
        \<lparr>script = Some ''scripts/status_check.sh'',
         description = ''Generate system status report'',
         requires_confirmation = False\<rparr>)) \<and>
   match_command default_whitelist ''ack'' =
     Inr (Some (''acknowledge incident'',
        \<lparr>script = None, description = ''Log incident acknowledgment'',
         requires_confirmation = False\<rparr>))"
proof -
  let ?sr = "\<lparr>script = Some ''scripts/status_check.sh'',
         description = ''Generate system status report'',
         requires_confirmation = False\<rparr>"
  let ?ak = "\<lparr>script = None, description = ''Log incident acknowledgment'',
         requires_confirmation = False\<rparr>"
  have a: "default_whitelist = take 4 default_whitelist @ (''status report'', ?sr) # []"
    by (simp add: default_whitelist_def)
  have b: "\<forall>t \<in> set (dict_keys (take 4 default_whitelist)).
             \<not> str_contains ''show status report'' t"
    by (simp add: default_whitelist_def dict_keys_def)
  have c: "str_contains ''show status report'' ''status report''" by simp
  have d: "\<forall>t \<in> set (dict_keys default_whitelist). \<not> str_contains ''ack'' t"
    by (simp add: default_whitelist_def dict_keys_def)
  have e: "fuzzy_matches = take 4 fuzzy_matches @ (''ack'', ''acknowledge incident'') #
             drop 5 fuzzy_matches"
    by (simp add: fuzzy_matches_def)
  have f: "\<forall>k \<in> set (dict_keys (take 4 fuzzy_matches)). \<not> str_contains ''ack'' k"
    by (simp add: fuzzy_matches_def dict_keys_def)
  have g: "str_contains ''ack'' ''ack''" by simp
  have h: "dict_get default_whitelist ''acknowledge incident'' = Some ?ak"
    by (simp add: default_whitelist_def dict_get_def)
  have "match_command default_whitelist ''show status report'' =
          Inr (Some (''status report'', ?sr))"
    using match_command_resolution_order [where wl = default_whitelist
        and pre = "take 4 default_whitelist" and T = "''status report''" and c = ?sr
        and post = "[]" and u = "''show status report''"] a b c
    by blast
  moreover have "match_command default_whitelist ''ack'' =
          Inr (Some (''acknowledge incident'', ?ak))"
    using match_command_resolution_order [where wl = default_whitelist
        and fpre = "take 4 fuzzy_matches" and K = "''ack''" and T = "''acknowledge incident''"
        and c = ?ak and fpost = "drop 5 fuzzy_matches" and u = "''ack''"] d e f g h
    by blast
  ultimately show ?thesis by blast
qed

text \<open>
  C2 as stated fails in its two consequences: an input containing the registered trigger
  \<open>status report\<close> resolves to \<open>start patching\<close>, registered earlier and also in the
  input; an input containing the keyword \<open>ack\<close> and no trigger resolves to
  \<open>start patching\<close>, because the keyword \<open>patch\<close> comes first in the table.
\<close>

theorem trigger_precedence_counterexample:
  "str_contains ''status report after start patching'' ''status report'' \<and>
   ''status report'' \<in> set (dict_keys default_whitelist) \<and>
   match_command default_whitelist ''status report after start patching'' =
     Inr (Some (''start patching'',
        \<lparr>script = Some ''scripts/patch_r2s.sh'',
         description = ''Initiate automated patching process'',
         requires_confirmation = False\<rparr>)) \<and>
   str_contains ''ack the patch'' ''ack'' \<and>
   dict_get fuzzy_matches ''ack'' = Some ''acknowledge incident'' \<and>
   direct_match default_whitelist ''ack the patch'' = None \<and>
   match_command default_whitelist ''ack the patch'' =
     Inr (Some (''start patching'',
        \<lparr>script = Some ''scripts/patch_r2s.sh'',
         description = ''Initiate automated patching process'',
         requires_confirmation = False\<rparr>))"
  by (simp add: match_command_def default_whitelist_def fuzzy_matches_def dict_get_def
        dict_keys_def)

text \<open>
  C9, as the code has it. A script that exists and is executable is run once, with the
  argument list \<open>[script_path]\<close>, a timeout of 300 seconds and an environment that agrees
  with the parent's on every variable other than \<open>TIMESTAMP\<close> and \<open>CVE_ID\<close>; \<open>TIMESTAMP\<close>
  is the clock reading; \<open>CVE_ID\<close> is the correlation id when one is given and is not empty,
  and otherwise is whatever the parent's environment has for it, possibly nothing. The
  parent's \<open>os.environ\<close> is the same after the execution, and after any
  \<open>process_voice_command\<close>.
\<close>

theorem child_process_environment:
  assumes "path_exists w p" and "access_x_ok w p"
  shows "trace (snd (execute_script w p n cve s)) =
           trace s @ [PathExists p, AccessXOk p,
             SubprocessRun [p] (child_env (environ s) cve (now_isoformat w (clock s))) 300] \<and>
         dict_get (child_env (environ s) cve (now_isoformat w (clock s))) ''TIMESTAMP'' =
           Some (now_isoformat w (clock s)) \<and>
         dict_get (child_env (environ s) cve (now_isoformat w (clock s))) ''CVE_ID'' =
           (case truthy cve of Some c \<Rightarrow> Some c | None \<Rightarrow> dict_get (environ s) ''CVE_ID'') \<and>
         (\<forall>k. k \<noteq> ''TIMESTAMP'' \<and> k \<noteq> ''CVE_ID'' \<longrightarrow>
            dict_get (child_env (environ s) cve (now_isoformat w (clock s))) k =
            dict_get (environ s) k) \<and>
         environ (snd (execute_script w p n cve s)) = environ s \<and>
         environ (snd (process_voice_command w command_text cve s)) = environ s"
  using assms
  by (simp add: execute_script_trace child_env_get execute_script_frame
        process_voice_command_frame)

text \<open>
  The status script run with a correlation id in a process whose environment holds
  \<open>PATH\<close>.
\<close>

theorem child_process_environment_witness:
  "trace (snd (execute_script (world_exit 0 []) ''scripts/status_check.sh'' ''status report''
        (Some ''CVE-2025-55182'') (new_engine [(''PATH'', ''/usr/bin'')]))) =
     [MakeDirs ''scripts'', PathExists ''scripts/status_check.sh'',
      AccessXOk ''scripts/status_check.sh'',
      SubprocessRun [''scripts/status_check.sh'']
        [(''PATH'', ''/usr/bin''), (''CVE_ID'', ''CVE-2025-55182''),
         (''TIMESTAMP'', ''2025-12-05T10:00:00'')] 300] \<and>
   environ (snd (execute_script (world_exit 0 []) ''scripts/status_check.sh'' ''status report''
        (Some ''CVE-2025-55182'') (new_engine [(''PATH'', ''/usr/bin'')]))) =
     [(''PATH'', ''/usr/bin'')]"
proof -
  have a: "path_exists (world_exit 0 []) ''scripts/status_check.sh''"
    and b: "access_x_ok (world_exit 0 []) ''scripts/status_check.sh''"
    by (simp_all add: world_exit_def)
  show ?thesis
    using child_process_environment [OF a b, where n = "''status report''"
        and cve = "Some ''CVE-2025-55182''" and s = "new_engine [(''PATH'', ''/usr/bin'')]"
        and command_text = "[]"]
    by (simp add: child_env_def new_engine_def world_exit_def)
qed

text \<open>
  C9 as stated fails: \<open>status report\<close> processed without a correlation id runs the script
  with an environment that has no \<open>CVE_ID\<close>.
\<close>

theorem child_without_cve_id_counterexample:
  "trace (snd (process_voice_command (world_exit 0 []) ''status report'' None
        (new_engine [(''PATH'', ''/usr/bin'')]))) =
     [MakeDirs ''scripts'', PathExists ''scripts/status_check.sh'',
      AccessXOk ''scripts/status_check.sh'',
      SubprocessRun [''scripts/status_check.sh'']
        [(''PATH'', ''/usr/bin''), (''TIMESTAMP'', ''2025-12-05T10:00:01'')] 300] \<and>
   dict_get [(''PATH'', ''/usr/bin''), (''TIMESTAMP'', ''2025-12-05T10:00:01'')] ''CVE_ID'' = None"
proof -
  have u: "strip (lower ''status report'') = ''status report''" by (simp add: str_defs)
  have m: "match_command (command_whitelist (new_engine [(''PATH'', ''/usr/bin'')]))
      (strip (lower ''status report'')) =
      Inr (Some (''status report'',
        \<lparr>script = Some ''scripts/status_check.sh'',
         description = ''Generate system status report'',
         requires_confirmation = False\<rparr>))"
    unfolding u by (simp add: match_command_def new_engine_def default_whitelist_def)
  show ?thesis
    unfolding process_voice_command_matched [OF m] u
    by (simp add: execute_command_snd execute_command_try_def Let_def execute_script_trace
          log_command_frame world_exit_def child_env_def new_engine_def dict_get_def)
qed

text \<open>
  C10. In a state where the history list object is allocated (as it is in a new engine and
  after any run of the engine's methods), \<open>get_command_history\<close> returns a reference to a
  new list object with the elements of the history, different from the engine's own
  reference. Whatever a caller does to the elements of the returned list (\<open>f\<close> is any
  function of them: appending, removing, reordering), the engine's history is the same as
  before, a later \<open>get_command_history\<close> returns the unmutated elements, and a later
  \<open>process_voice_command\<close> leaves the same history as it would have without the mutation.
\<close>

theorem get_command_history_copy:
  assumes "command_history s < next_ref s"
  shows "lists (snd (get_command_history s)) (fst (get_command_history s)) = history s \<and>
         fst (get_command_history s) \<noteq> command_history s \<and>
         history (snd (get_command_history s)) = history s \<and>
         history (mutate_list (fst (get_command_history s)) f (snd (get_command_history s))) =
           history s \<and>
         lists (snd (get_command_history
                  (mutate_list (fst (get_command_history s)) f (snd (get_command_history s)))))
               (fst (get_command_history
                  (mutate_list (fst (get_command_history s)) f (snd (get_command_history s))))) =
           history s \<and>
         history (snd (process_voice_command w command_text cve
                  (mutate_list (fst (get_command_history s)) f (snd (get_command_history s))))) =
           history (snd (process_voice_command w command_text cve s))"
proof -
  let ?r = "fst (get_command_history s)"
  let ?s1 = "snd (get_command_history s)"
  let ?s2 = "mutate_list ?r f ?s1"
  have a: "lists ?s1 ?r = history s" by (rule get_command_history_returns)
  have b: "?r \<noteq> command_history s" using assms by (simp add: get_command_history_frame)
  have c: "history ?s1 = history s" by (rule get_command_history_history)
  have "?r \<noteq> command_history ?s1" using b by (simp add: get_command_history_frame)
  then have d: "history ?s2 = history s" using c by (simp add: mutate_list_history)
  have e: "lists (snd (get_command_history ?s2)) (fst (get_command_history ?s2)) = history s"
    using d by (simp add: get_command_history_returns)
  have "clock ?s2 = clock s" by (simp add: mutate_list_frame get_command_history_frame)
  then have g: "history (snd (process_voice_command w command_text cve ?s2)) =
      history (snd (process_voice_command w command_text cve s))"
    using d by (simp add: process_voice_command_history)
  from a b c d e g show ?thesis by blast
qed

text \<open>
  After one utterance on a new engine, the caller clears the list it got: the engine's
  history still holds the entry.
\<close>

theorem get_command_history_copy_witness:
  "history (mutate_list
     (fst (get_command_history
        (snd (process_voice_command (world_exit 0 []) ''xyzzy'' None (new_engine [])))))
     (\<lambda>xs. [])
     (snd (get_command_history
        (snd (process_voice_command (world_exit 0 []) ''xyzzy'' None (new_engine [])))))) =
   [\<lparr>timestamp = ''2025-12-05T10:00:00'', command = ''xyzzy'', cve_id = None,
     source = ''voice_command''\<rparr>]"
proof -
  let ?s = "snd (process_voice_command (world_exit 0 []) ''xyzzy'' None (new_engine []))"
  have a: "command_history ?s < next_ref ?s"
    by (simp add: process_voice_command_frame new_engine_def)
  have u: "strip (lower ''xyzzy'') = ''xyzzy''" by (simp add: str_defs)
  have h: "history ?s = [\<lparr>timestamp = ''2025-12-05T10:00:00'', command = ''xyzzy'',
     cve_id = None, source = ''voice_command''\<rparr>]"
    by (simp add: process_voice_command_history u) (simp add: history_def new_engine_def world_exit_def)
  show ?thesis
    using get_command_history_copy [OF a, of "\<lambda>xs. []"] h by simp
qed

text \<open>
  C4, as the code has it. For an input that resolves to the \<open>acknowledge incident\<close> entry,
  the only event is \<open>os.makedirs("logs")\<close>: no existence check, no access check, no child
  process. If the directory can be made, the result is the fixed confirmation. If moreover
  the log file can be opened and written, exactly the text
  \<open><t>: Incident acknowledged at <t>\<close>, followed by \<open> for <cve_id>\<close> when the correlation id
  is given and not empty, and a line feed, is appended to it, \<open>t\<close> being one clock reading;
  that text is one line, its only line feed being the last character, when neither the
  clock reading nor the correlation id contains a line feed (a line feed in the correlation
  id is written as it is). If the directory cannot be made, nothing is appended; if opening,
  writing or closing the file raises, the error is swallowed, the confirmation is still
  returned, and the file holds only what had reached it by then, nothing when it could not
  be opened.
\<close>

theorem acknowledgment_effects:
  assumes "match_command (command_whitelist s) (strip (lower command_text)) =
             Inr (Some (''acknowledge incident'', config))"
  shows "trace (snd (process_voice_command w command_text cve s)) =
           trace s @ [MakeDirs ''logs''] \<and>
         (makedirs_raises w ''logs'' = None \<longrightarrow>
            fst (process_voice_command w command_text cve s) =
              Inr ''Incident acknowledged and logged.'') \<and>
         (makedirs_raises w ''logs'' = None \<and>
          append_raises w ack_file
              (now_isoformat w (Suc (clock s)) @ '': Incident acknowledged at '' @
               now_isoformat w (Suc (clock s)) @
               (case truthy cve of Some c \<Rightarrow> '' for '' @ c | None \<Rightarrow> []) @ [line_feed]) =
            None \<longrightarrow>
            files (snd (process_voice_command w command_text cve s)) =
              (files s)(ack_file := files s ack_file @
                 now_isoformat w (Suc (clock s)) @ '': Incident acknowledged at '' @
                 now_isoformat w (Suc (clock s)) @
                 (case truthy cve of Some c \<Rightarrow> '' for '' @ c | None \<Rightarrow> []) @ [line_feed])) \<and>
         (line_feed \<notin> set (now_isoformat w (Suc (clock s))) \<and>
          (\<forall>c. truthy cve = Some c \<longrightarrow> line_feed \<notin> set c) \<longrightarrow>
            line_feed \<notin> set (now_isoformat w (Suc (clock s)) @
                 '': Incident acknowledged at '' @ now_isoformat w (Suc (clock s)) @
                 (case truthy cve of Some c \<Rightarrow> '' for '' @ c | None \<Rightarrow> []))) \<and>
         (makedirs_raises w ''logs'' = None \<and>
          append_raises w ack_file
              (now_isoformat w (Suc (clock s)) @ '': Incident acknowledged at '' @
               now_isoformat w (Suc (clock s)) @
               (case truthy cve of Some c \<Rightarrow> '' for '' @ c | None \<Rightarrow> []) @ [line_feed]) =
            Some written \<longrightarrow>
            files (snd (process_voice_command w command_text cve s)) =
              (files s)(ack_file := files s ack_file @ written)) \<and>
         (makedirs_raises w ''logs'' \<noteq> None \<longrightarrow>
            files (snd (process_voice_command w command_text cve s)) = files s)"
proof -
  let ?u = "strip (lower command_text)"
  let ?s1 = "log_command w ?u cve s"
  let ?line = "now_isoformat w (Suc (clock s)) @ '': Incident acknowledged at '' @
               now_isoformat w (Suc (clock s)) @
               (case truthy cve of Some c \<Rightarrow> '' for '' @ c | None \<Rightarrow> []) @ [line_feed]"
  have p: "process_voice_command w command_text cve s =
      execute_command w (''acknowledge incident'', config) ?u cve ?s1"
    using assms by (rule process_voice_command_matched)
  have s: "snd (execute_command w (''acknowledge incident'', config) ?u cve ?s1) =
      snd (handle_acknowledgment w cve ?s1)"
    by (simp add: execute_command_snd execute_command_try_def Let_def)
  have f: "files (snd (process_voice_command w command_text cve s)) =
      (case makedirs_raises w ''logs'' of
         Some e \<Rightarrow> files s
       | None \<Rightarrow>
           (files s)(ack_file := files s ack_file @
             (case append_raises w ack_file ?line of
                Some written \<Rightarrow> written | None \<Rightarrow> ?line)))"
    unfolding p s handle_acknowledgment_files log_command_frame by (rule refl)
  have a: "trace (snd (process_voice_command w command_text cve s)) =
      trace s @ [MakeDirs ''logs'']"
    by (simp add: p s handle_acknowledgment_trace log_command_frame)
  have b: "makedirs_raises w ''logs'' = None \<longrightarrow>
      fst (process_voice_command w command_text cve s) =
        Inr ''Incident acknowledged and logged.''"
    by (simp add: p execute_command_acknowledge)
  have c: "makedirs_raises w ''logs'' = None \<and> append_raises w ack_file ?line = None \<longrightarrow>
      files (snd (process_voice_command w command_text cve s)) =
        (files s)(ack_file := files s ack_file @ ?line)"
    unfolding f by simp
  have d: "makedirs_raises w ''logs'' = None \<and>
      append_raises w ack_file ?line = Some written \<longrightarrow>
      files (snd (process_voice_command w command_text cve s)) =
        (files s)(ack_file := files s ack_file @ written)"
    unfolding f by simp
  have g: "makedirs_raises w ''logs'' \<noteq> None \<longrightarrow>
      files (snd (process_voice_command w command_text cve s)) = files s"
    unfolding f by auto
  have e: "line_feed \<notin> set (now_isoformat w (Suc (clock s))) \<and>
          (\<forall>c. truthy cve = Some c \<longrightarrow> line_feed \<notin> set c) \<longrightarrow>
            line_feed \<notin> set (now_isoformat w (Suc (clock s)) @
                 '': Incident acknowledged at '' @ now_isoformat w (Suc (clock s)) @
                 (case truthy cve of Some c \<Rightarrow> '' for '' @ c | None \<Rightarrow> []))"
    by (auto split: option.splits)
  from a b c d e g show ?thesis by blast
qed

text \<open>
  The scenario of the specification: \<open>ack\<close> with a correlation id on a new engine.
\<close>

theorem acknowledgment_effects_witness:
  "fst (process_voice_command (world_exit 0 []) ''ack'' (Some ''CVE-2025-55182'')
         (new_engine [])) = Inr ''Incident acknowledged and logged.'' \<and>
   trace (snd (process_voice_command (world_exit 0 []) ''ack'' (Some ''CVE-2025-55182'')
         (new_engine []))) = [MakeDirs ''scripts'', MakeDirs ''logs''] \<and>
   files (snd (process_voice_command (world_exit 0 []) ''ack'' (Some ''CVE-2025-55182'')
         (new_engine []))) ''logs/acknowledgments.log'' =
     ''2025-12-05T10:00:01: Incident acknowledged at 2025-12-05T10:00:01 for CVE-2025-55182'' @
     [line_feed] \<and>
   line_feed \<notin> set
     ''2025-12-05T10:00:01: Incident acknowledged at 2025-12-05T10:00:01 for CVE-2025-55182''"
proof -
  have u: "strip (lower ''ack'') = ''ack''" by (simp add: str_defs)
  have m: "match_command (command_whitelist (new_engine [])) (strip (lower ''ack'')) =
      Inr (Some (''acknowledge incident'',
        \<lparr>script = None, description = ''Log incident acknowledgment'',
         requires_confirmation = False\<rparr>))"
    unfolding u
    by (simp add: match_command_def new_engine_def default_whitelist_def fuzzy_matches_def
          dict_get_def)
  show ?thesis
    using acknowledgment_effects [OF m, of "world_exit 0 []" "Some ''CVE-2025-55182''"]
    by (simp add: world_exit_def new_engine_def ack_file_def is_ascii_def)
qed

text \<open>
  C4 as stated fails twice. When the log file cannot be opened, the \<open>except\<close> in
  \<open>_handle_acknowledgment\<close> swallows the error; the confirmation is returned and no line has
  been appended. And a correlation id that holds a line feed is written as it is: two lines
  are appended.
\<close>

theorem acknowledgment_unwritable_log_counterexample:
  "fst (process_voice_command world_readonly ''ack'' (Some ''CVE-2025-55182'')
         (new_engine [])) = Inr ''Incident acknowledged and logged.'' \<and>
   files (new_engine []) ''logs/acknowledgments.log'' = [] \<and>
   files (snd (process_voice_command world_readonly ''ack'' (Some ''CVE-2025-55182'')
         (new_engine []))) ''logs/acknowledgments.log'' = [] \<and>
   files (snd (process_voice_command (world_exit 0 []) ''ack''
         (Some (''CVE-1'' @ [line_feed] @ ''CVE-2'')) (new_engine [])))
       ''logs/acknowledgments.log'' =
     ''2025-12-05T10:00:01: Incident acknowledged at 2025-12-05T10:00:01 for CVE-1'' @
     [line_feed] @ ''CVE-2'' @ [line_feed]"
proof -
  have u: "strip (lower ''ack'') = ''ack''" by (simp add: str_defs)
  have m: "match_command (command_whitelist (new_engine [])) (strip (lower ''ack'')) =
      Inr (Some (''acknowledge incident'',
        \<lparr>script = None, description = ''Log incident acknowledgment'',
         requires_confirmation = False\<rparr>))"
    unfolding u
    by (simp add: match_command_def new_engine_def default_whitelist_def fuzzy_matches_def
          dict_get_def)
  show ?thesis
    unfolding process_voice_command_matched [OF m] u
    by (simp add: execute_command_acknowledge execute_command_snd execute_command_try_def
          Let_def handle_acknowledgment_files log_command_frame world_readonly_def
          world_exit_def new_engine_def ack_file_def is_ascii_def)
qed

end
